theory Spec2Isabelle
  imports Main "HOL-Library.AList"
begin

section \<open>Text primitives\<close>

text \<open>
  Python strings are modelled as \<^typ>\<open>string\<close>. The model interprets ASCII text:
  the digits of \<^verbatim>\<open>\d\<close> are \<^verbatim>\<open>0\<close> to \<^verbatim>\<open>9\<close>, the white space of \<^verbatim>\<open>\s\<close> and of
  \<^verbatim>\<open>str.strip()\<close> is the ASCII white space of Python (tab, line feed, vertical
  tab, form feed, carriage return, the four separators 0x1C to 0x1F, and the space), and
  \<^verbatim>\<open>str.lower()\<close> maps \<^verbatim>\<open>A\<close> to \<^verbatim>\<open>Z\<close> onto \<^verbatim>\<open>a\<close> to \<^verbatim>\<open>z\<close>. Characters beyond
  ASCII are carried along unchanged.
\<close>

definition is_digit :: "char \<Rightarrow> bool" where
  "is_digit c = (c \<in> set ''0123456789'')"

definition is_space :: "char \<Rightarrow> bool" where
  "is_space c = (c \<in> set [CHR 0x09, CHR 0x0A, CHR 0x0B, CHR 0x0C, CHR 0x0D,
                            CHR 0x1C, CHR 0x1D, CHR 0x1E, CHR 0x1F, CHR 0x20])"

definition lower_char :: "char \<Rightarrow> char" where
  "lower_char c =
     (case map_of (zip ''ABCDEFGHIJKLMNOPQRSTUVWXYZ'' ''abcdefghijklmnopqrstuvwxyz'') c of
        Some l \<Rightarrow> l
      | None \<Rightarrow> c)"

definition lower :: "string \<Rightarrow> string" where
  "lower s = map lower_char s"

definition strip :: "string \<Rightarrow> string" where
  "strip s = rev (dropWhile is_space (rev (dropWhile is_space s)))"

fun starts_with :: "string \<Rightarrow> string \<Rightarrow> bool" where
  "starts_with [] s = True"
| "starts_with (p # ps) [] = False"
| "starts_with (p # ps) (c # cs) = (p = c \<and> starts_with ps cs)"

text \<open>\<^verbatim>\<open>sub in s\<close> on strings.\<close>

fun contains :: "string \<Rightarrow> string \<Rightarrow> bool" where
  "contains sub [] = starts_with sub []"
| "contains sub (c # cs) = (starts_with sub (c # cs) \<or> contains sub cs)"

fun join_sp :: "string list \<Rightarrow> string" where
  "join_sp [] = []"
| "join_sp [t] = t"
| "join_sp (t # u # ts) = t @ '' '' @ join_sp (u # ts)"


section \<open>Regular expressions of the parser\<close>

text \<open>
  Every pattern the parser compiles, but the one with a back reference, is a sequence of
  single-character classes, some of them starred. \<open>rx_match_here r s\<close> says that \<open>r\<close>
  matches a prefix of \<open>s\<close>; \<open>rx_search r s\<close> is the truth value of
  \<^verbatim>\<open>re.search(r, s)\<close>.
\<close>

datatype rx_item = Ch "char \<Rightarrow> bool" | Star "char \<Rightarrow> bool"

fun rx_match_here :: "rx_item list \<Rightarrow> string \<Rightarrow> bool" where
  "rx_match_here [] s = True"
| "rx_match_here (Ch p # r) [] = False"
| "rx_match_here (Ch p # r) (c # cs) = (p c \<and> rx_match_here r cs)"
| "rx_match_here (Star p # r) [] = rx_match_here r []"
| "rx_match_here (Star p # r) (c # cs) =
     ((p c \<and> rx_match_here (Star p # r) cs) \<or> rx_match_here r (c # cs))"

fun rx_search :: "rx_item list \<Rightarrow> string \<Rightarrow> bool" where
  "rx_search r [] = rx_match_here r []"
| "rx_search r (c # cs) = (rx_match_here r (c # cs) \<or> rx_search r cs)"

definition lit :: "string \<Rightarrow> rx_item list" where
  "lit s = map (\<lambda>c. Ch (\<lambda>x. x = c)) s"

text \<open>\<^verbatim>\<open>.*\<close> (the dot matches everything but a line feed) and \<^verbatim>\<open>\s*\<close>.\<close>

definition dot_star :: "rx_item list" where
  "dot_star = [Star (\<lambda>c. c \<noteq> CHR 0x0A)]"

definition ws_star :: "rx_item list" where
  "ws_star = [Star is_space]"

text \<open>A compiled pattern: searched anywhere, or anchored at the start by \<^verbatim>\<open>^\<close>.\<close>

datatype regex = Search "rx_item list" | Anchored "rx_item list"

fun re_search :: "regex \<Rightarrow> string \<Rightarrow> bool" where
  "re_search (Search r) s = rx_search r s"
| "re_search (Anchored r) s = rx_match_here r s"

text \<open>The patterns of \<^verbatim>\<open>parse_market_odds\<close> and \<^verbatim>\<open>_extract_bookmaker_name\<close>.\<close>

definition block_pattern_first :: regex where
  "block_pattern_first = Search (lit ''border-black-borders'')"

definition block_pattern_retry :: regex where
  "block_pattern_retry = Anchored (lit ''border-black-borders flex h-9'')"

definition odds_pattern :: regex where
  "odds_pattern = Search (lit ''flex-center'' @ dot_star @ lit ''flex-col'' @ dot_star @ lit ''font-bold'')"

definition height_content_pattern :: regex where
  "height_content_pattern = Search (lit ''height-content'')"

text \<open>\<^verbatim>\<open>[\d.+-]\<close>\<close>

definition looks_numeric_pattern :: regex where
  "looks_numeric_pattern = Search [Ch (\<lambda>c. is_digit c \<or> c \<in> set ''.+-'')]"


section \<open>The parsed document\<close>

text \<open>
  \<^verbatim>\<open>BeautifulSoup(html_content, "html.parser")\<close> is the work of a library; the model
  starts from the tree it returns. A tag has its name, its \<^verbatim>\<open>class\<close> attribute (absent,
  or the list of class tokens the library splits it into), its other attributes and its
  children; a text node is a \<open>NavigableString\<close>. The soup itself is the list of its
  top-level nodes.
\<close>

datatype node =
    NavigableString string
  | Tag (name: string) (classes: "string list option") (attrs: "(string \<times> string) list")
        (contents: "node list")

type_synonym soup = "node list"

text \<open>All nodes below a node, in document order.\<close>

fun descendants :: "node \<Rightarrow> node list" and descendants_list :: "node list \<Rightarrow> node list" where
  "descendants (NavigableString s) = []"
| "descendants (Tag n c a ks) = descendants_list ks"
| "descendants_list [] = []"
| "descendants_list (k # ks) = k # descendants k @ descendants_list ks"

fun is_tag :: "string \<Rightarrow> node \<Rightarrow> bool" where
  "is_tag tg (NavigableString s) = False"
| "is_tag tg (Tag n c a ks) = (n = tg)"

text \<open>
  The library matches a pattern given as \<^verbatim>\<open>class_\<close> against every class token and, when
  none matches, against the tokens joined by single spaces. A tag without a
  \<^verbatim>\<open>class\<close> attribute matches nothing.
\<close>

fun class_matches_re :: "regex \<Rightarrow> node \<Rightarrow> bool" where
  "class_matches_re p (NavigableString s) = False"
| "class_matches_re p (Tag n None a ks) = False"
| "class_matches_re p (Tag n (Some toks) a ks) =
     (list_ex (re_search p) toks \<or> re_search p (join_sp toks))"

fun class_matches_str :: "string \<Rightarrow> node \<Rightarrow> bool" where
  "class_matches_str v (NavigableString s) = False"
| "class_matches_str v (Tag n None a ks) = False"
| "class_matches_str v (Tag n (Some toks) a ks) =
     (list_ex (\<lambda>t. t = v) toks \<or> join_sp toks = v)"

text \<open>\<^verbatim>\<open>t.find_all(...)\<close> and \<^verbatim>\<open>t.find(...)\<close> with the test \<open>P\<close> on the candidates.\<close>

definition find_all :: "(node \<Rightarrow> bool) \<Rightarrow> node list \<Rightarrow> node list" where
  "find_all P ks = filter P (descendants_list ks)"

definition find_first :: "(node \<Rightarrow> bool) \<Rightarrow> node list \<Rightarrow> node option" where
  "find_first P ks = List.find P (descendants_list ks)"

fun node_strings :: "node list \<Rightarrow> string list" where
  "node_strings [] = []"
| "node_strings (NavigableString s # ns) = s # node_strings ns"
| "node_strings (Tag n c a ks # ns) = node_strings ns"

text \<open>\<^verbatim>\<open>t.get_text(strip=True)\<close>: the stripped, non-empty strings below \<open>t\<close>, concatenated.\<close>

definition get_text_strip :: "node \<Rightarrow> string" where
  "get_text_strip t = concat (filter (\<lambda>s. s \<noteq> []) (map strip (node_strings (descendants t))))"

fun get_attr :: "string \<Rightarrow> node \<Rightarrow> string option" where
  "get_attr k (NavigableString s) = None"
| "get_attr k (Tag n c a ks) = map_of a k"

fun children :: "node \<Rightarrow> node list" where
  "children (NavigableString s) = []"
| "children (Tag n c a ks) = ks"


section \<open>The bookmaker identifier\<close>

definition bookmaker_patterns :: "rx_item list list" where
  "bookmaker_patterns =
     [lit ''bet365'', lit ''betmgm'', lit ''fanduel'', lit ''draftkings'', lit ''caesars'',
      lit ''pointsbet'', lit ''betrivers'', lit ''unibet'', lit ''william'' @ ws_star @ lit ''hill'',
      lit ''ladbrokes'',
      lit ''betfair'', lit ''pinnacle'', lit ''bovada'', lit ''betonline'', lit ''mybookie'',
      lit ''betway'', lit ''888'', lit ''bwin'', lit ''betfred'', lit ''paddy'' @ ws_star @ lit ''power'',
      lit ''sportsbet'', lit ''tab'', lit ''neds'', lit ''betsson'', lit ''10bet'',
      lit ''1xbet'', lit ''melbet'', lit ''22bet'', lit ''stake'', lit ''cloudbet'']"

definition looks_like_bookmaker :: "string \<Rightarrow> bool" where
  "looks_like_bookmaker nm =
     (if nm = [] then False
      else let name_lower = lower nm in
        if list_ex (\<lambda>pattern. rx_search pattern name_lower) bookmaker_patterns then True
        else if list_ex (\<lambda>suffix. contains suffix name_lower)
                  [''.com'', ''.us'', ''.uk'', ''.eu'', ''bet'', ''book'', ''wager'']
        then True
        else False)"

text \<open>Method 1: the first \<^verbatim>\<open>img\<close> of class \<^verbatim>\<open>bookmaker-logo\<close>, when it has a title.\<close>

definition name_from_logo :: "node \<Rightarrow> string option" where
  "name_from_logo block =
     (case find_first (\<lambda>t. is_tag ''img'' t \<and> class_matches_str ''bookmaker-logo'' t) (children block) of
        None \<Rightarrow> None
      | Some img_tag \<Rightarrow> get_attr ''title'' img_tag)"

text \<open>Method 2: the first \<^verbatim>\<open>img\<close> whose alternative text looks like a bookmaker.\<close>

fun name_from_alt :: "node list \<Rightarrow> string option" where
  "name_from_alt [] = None"
| "name_from_alt (img_tag # rest) =
     (let alt_text = (case get_attr ''alt'' img_tag of Some v \<Rightarrow> v | None \<Rightarrow> [])
      in if alt_text \<noteq> [] \<and> looks_like_bookmaker alt_text then Some alt_text
         else name_from_alt rest)"

text \<open>Method 3: a link inside a paragraph of class \<^verbatim>\<open>height-content\<close>.\<close>

fun name_from_link :: "node list \<Rightarrow> string option" where
  "name_from_link [] = None"
| "name_from_link (p # rest) =
     (case find_first (is_tag ''a'') (children p) of
        None \<Rightarrow> name_from_link rest
      | Some a_tag \<Rightarrow>
          (let nm = get_text_strip a_tag
           in if nm \<noteq> [] \<and> looks_like_bookmaker nm then Some nm else name_from_link rest))"

definition extract_bookmaker_name :: "node \<Rightarrow> string" where
  "extract_bookmaker_name block =
     (case name_from_logo block of
        Some title \<Rightarrow> title
      | None \<Rightarrow>
         (case name_from_alt (find_all (\<lambda>t. is_tag ''img'' t \<and> get_attr ''alt'' t \<noteq> None) (children block)) of
            Some alt_text \<Rightarrow> alt_text
          | None \<Rightarrow>
             (case name_from_link
                     (find_all (\<lambda>t. is_tag ''p'' t \<and> class_matches_re height_content_pattern t)
                        (children block)) of
                Some nm \<Rightarrow> nm
              | None \<Rightarrow> ''Unknown'')))"


section \<open>Normalisation of an odds text\<close>

text \<open>
  \<^verbatim>\<open>re.sub(r"(\d+\.\d+)\1", r"\1", value)\<close>. The matcher follows the order in which the
  backtracking engine tries the alternatives at one position: the first \<^verbatim>\<open>\d+\<close> from its
  longest run of digits down to one digit, then the dot, then the second \<^verbatim>\<open>\d+\<close> from its
  longest run down to one digit, then the back reference, which asks that the group just
  read stands once more right behind it. \<open>try_frac s base k\<close> tries the groups of length
  \<open>base + k\<close>, \<open>base + k - 1\<close>, ..., \<open>base + 1\<close>, where \<open>base\<close> counts the first number and
  the dot; the result is the length of group 1.
\<close>

fun try_frac :: "string \<Rightarrow> nat \<Rightarrow> nat \<Rightarrow> nat option" where
  "try_frac s base 0 = None"
| "try_frac s base (Suc k) =
     (let n = base + Suc k
      in if take n (drop n s) = take n s then Some n else try_frac s base k)"

fun try_int :: "string \<Rightarrow> nat \<Rightarrow> nat option" where
  "try_int s 0 = None"
| "try_int s (Suc k) =
     (if take 1 (drop (Suc k) s) = ''.''
      then (case try_frac s (Suc (Suc k)) (length (takeWhile is_digit (drop (Suc (Suc k)) s))) of
              Some n \<Rightarrow> Some n
            | None \<Rightarrow> try_int s k)
      else try_int s k)"

definition match_repeat :: "string \<Rightarrow> nat option" where
  "match_repeat s = try_int s (length (takeWhile is_digit s))"

text \<open>
  The scan of \<^verbatim>\<open>re.sub\<close>: at a position where the pattern matches, the match (twice the
  group) is replaced by the group and the scan goes on behind the match; elsewhere the
  character is copied. \<open>skip\<close> counts the characters of a match still to be passed over.
\<close>

fun sub_repeat :: "nat \<Rightarrow> string \<Rightarrow> string" where
  "sub_repeat skip [] = []"
| "sub_repeat (Suc k) (c # cs) = sub_repeat k cs"
| "sub_repeat 0 (c # cs) =
     (case match_repeat (c # cs) of
        Some n \<Rightarrow> take n (c # cs) @ sub_repeat (2 * n - 1) cs
      | None \<Rightarrow> c # sub_repeat 0 cs)"

definition normalize_odds_text :: "string \<Rightarrow> string" where
  "normalize_odds_text v = sub_repeat 0 v"


section \<open>The market odds extractor\<close>

datatype py_error = IndexError | AttributeError | ValueError

text \<open>
  A record of the output is a Python dictionary from strings to strings: an association
  list in insertion order, where storing under a key that is present replaces its value in
  place (\<^const>\<open>AList.update\<close>).
\<close>

type_synonym odds_record = "(string \<times> string) list"

text \<open>
  The ambient state a call can read: the clock, of which the parser uses the current UTC
  year. Both entry points receive it, as every method of the class could read it.
\<close>

record world =
  utc_year :: nat

text \<open>Block discovery (lines 33 to 38): the first pattern, then the retry.\<close>

definition find_bookmaker_blocks :: "soup \<Rightarrow> node list" where
  "find_bookmaker_blocks sp =
     (let bookmaker_blocks = find_all (\<lambda>t. is_tag ''div'' t \<and> class_matches_re block_pattern_first t) sp
      in if bookmaker_blocks = []
         then find_all (\<lambda>t. is_tag ''div'' t \<and> class_matches_re block_pattern_retry t) sp
         else bookmaker_blocks)"

text \<open>Field discovery (lines 55 to 61) for \<open>n\<close> requested labels.\<close>

definition find_odds_blocks :: "node \<Rightarrow> nat \<Rightarrow> node list" where
  "find_odds_blocks block n =
     (let odds_blocks = find_all (\<lambda>t. is_tag ''div'' t \<and> class_matches_re odds_pattern t) (children block)
      in if length odds_blocks < n
         then filter (\<lambda>b. re_search looks_numeric_pattern (get_text_strip b))
                (find_all (\<lambda>t. is_tag ''p'' t \<and> class_matches_re height_content_pattern t) (children block))
         else odds_blocks)"

text \<open>
  The dictionary comprehension of line 67: label \<open>i\<close> is bound to the text of field \<open>i\<close>;
  an index out of range raises.
\<close>

fun extract_odds :: "node list \<Rightarrow> nat \<Rightarrow> string list \<Rightarrow> odds_record \<Rightarrow> py_error + odds_record" where
  "extract_odds odds_blocks i [] d = Inr d"
| "extract_odds odds_blocks i (label # labels) d =
     (if i < length odds_blocks
      then extract_odds odds_blocks (Suc i) labels (AList.update label (get_text_strip (odds_blocks ! i)) d)
      else Inl IndexError)"

text \<open>
  The body of the loop over the blocks (lines 47 to 74): \<open>Inr None\<close> is a \<^verbatim>\<open>continue\<close>,
  \<open>Inr (Some r)\<close> appends the record \<open>r\<close>, \<open>Inl e\<close> is an exception raised in the body.
\<close>

definition parse_block :: "string \<Rightarrow> string list \<Rightarrow> string option \<Rightarrow> node \<Rightarrow> py_error + odds_record option" where
  "parse_block period odds_labels target_bookmaker block =
     (let bookmaker_name = extract_bookmaker_name block
      in if bookmaker_name = [] \<or> bookmaker_name = ''Unknown'' then Inr None
         else if (case target_bookmaker of
                    None \<Rightarrow> False
                  | Some t \<Rightarrow> t \<noteq> [] \<and> lower bookmaker_name \<noteq> lower t) then Inr None
         else let odds_blocks = find_odds_blocks block (length odds_labels)
              in if length odds_blocks < length odds_labels then Inr None
                 else (case extract_odds odds_blocks 0 odds_labels [] of
                         Inl e \<Rightarrow> Inl e
                       | Inr extracted_odds \<Rightarrow>
                           Inr (Some (AList.update ''period'' period
                                  (AList.update ''bookmaker_name'' bookmaker_name
                                     (map (\<lambda>(key, v). (key, normalize_odds_text v)) extracted_odds))))))"

text \<open>The loop with its \<^verbatim>\<open>except Exception\<close>: a block that raises is passed over.\<close>

fun parse_blocks :: "string \<Rightarrow> string list \<Rightarrow> string option \<Rightarrow> node list \<Rightarrow> odds_record list" where
  "parse_blocks period odds_labels target_bookmaker [] = []"
| "parse_blocks period odds_labels target_bookmaker (block # blocks) =
     (case parse_block period odds_labels target_bookmaker block of
        Inr (Some r) \<Rightarrow> r # parse_blocks period odds_labels target_bookmaker blocks
      | Inr None \<Rightarrow> parse_blocks period odds_labels target_bookmaker blocks
      | Inl e \<Rightarrow> parse_blocks period odds_labels target_bookmaker blocks)"

definition parse_market_odds :: "world \<Rightarrow> soup \<Rightarrow> string \<Rightarrow> string list \<Rightarrow> string option \<Rightarrow> odds_record list" where
  "parse_market_odds w sp period odds_labels target_bookmaker =
     (let bookmaker_blocks = find_bookmaker_blocks sp
      in if bookmaker_blocks = [] then []
         else parse_blocks period odds_labels target_bookmaker bookmaker_blocks)"


section \<open>Library parsers used by the history parser\<close>

subsection \<open>\<^verbatim>\<open>datetime.strptime(text, "%d %b, %H:%M")\<close>\<close>

text \<open>
  The library turns the format into the regular expression
  \<^verbatim>\<open>(3[0-1]|[1-2]\d|0[1-9]|[1-9]| [1-9])\s+(jan|...|dec),\s+(2[0-3]|[0-1]\d|\d):([0-5]\d|\d)\<close>,
  matched at the start of the text without regard to case (month names of the C locale);
  text left over behind the match, or no match, raises \<^verbatim>\<open>ValueError\<close>. A matcher of the
  model returns its matches in the order in which the backtracking engine finds them, each
  with the text that is left; the engine's match is the first of the list.
\<close>

type_synonym 'a matcher = "string \<Rightarrow> ('a \<times> string) list"

definition digit_val :: "char \<Rightarrow> nat" where
  "digit_val c = of_char c - 48"

definition two_chars :: "(char \<Rightarrow> bool) \<Rightarrow> (char \<Rightarrow> bool) \<Rightarrow> nat matcher" where
  "two_chars P Q s =
     (case s of
        a # b # r \<Rightarrow> if P a \<and> Q b then [(10 * digit_val a + digit_val b, r)] else []
      | _ \<Rightarrow> [])"

definition one_char :: "(char \<Rightarrow> bool) \<Rightarrow> nat matcher" where
  "one_char P s = (case s of a # r \<Rightarrow> if P a then [(digit_val a, r)] else [] | [] \<Rightarrow> [])"

definition in_chars :: "string \<Rightarrow> char \<Rightarrow> bool" where
  "in_chars cs c = (c \<in> set cs)"

definition day_matcher :: "nat matcher" where
  "day_matcher s =
     two_chars (in_chars ''3'') (in_chars ''01'') s
     @ two_chars (in_chars ''12'') is_digit s
     @ two_chars (in_chars ''0'') (in_chars ''123456789'') s
     @ one_char (in_chars ''123456789'') s
     @ (case s of a # r \<Rightarrow> if a = CHR '' '' then one_char (in_chars ''123456789'') r else []
        | [] \<Rightarrow> [])"

definition hour_matcher :: "nat matcher" where
  "hour_matcher s =
     two_chars (in_chars ''2'') (in_chars ''0123'') s
     @ two_chars (in_chars ''01'') is_digit s
     @ one_char is_digit s"

definition minute_matcher :: "nat matcher" where
  "minute_matcher s = two_chars (in_chars ''012345'') is_digit s @ one_char is_digit s"

definition month_abbr :: "string list" where
  "month_abbr = [''jan'', ''feb'', ''mar'', ''apr'', ''may'', ''jun'',
                 ''jul'', ''aug'', ''sep'', ''oct'', ''nov'', ''dec'']"

fun index_of :: "string \<Rightarrow> string list \<Rightarrow> nat \<Rightarrow> nat option" where
  "index_of x [] i = None"
| "index_of x (y # ys) i = (if x = y then Some i else index_of x ys (Suc i))"

text \<open>The month: its number, from 1.\<close>

definition month_matcher :: "nat matcher" where
  "month_matcher s =
     (if length s < 3 then []
      else (case index_of (lower (take 3 s)) month_abbr 1 of
              None \<Rightarrow> []
            | Some m \<Rightarrow> [(m, drop 3 s)]))"

text \<open>\<^verbatim>\<open>\s+\<close>, greedy: the longest run of white space first, then the shorter ones.\<close>

fun drops_down :: "nat \<Rightarrow> string \<Rightarrow> string list" where
  "drops_down 0 s = []"
| "drops_down (Suc k) s = drop (Suc k) s # drops_down k s"

definition ws_plus :: "string \<Rightarrow> string list" where
  "ws_plus s = drops_down (length (takeWhile is_space s)) s"

definition lit_char :: "char \<Rightarrow> string \<Rightarrow> string list" where
  "lit_char c s = (case s of a # r \<Rightarrow> if a = c then [r] else [] | [] \<Rightarrow> [])"

text \<open>A parsed time: month, day, hour, minute (the year is 1900, the seconds are 0).\<close>

datatype datetime = Datetime (dt_month: nat) (dt_day: nat) (dt_hour: nat) (dt_minute: nat)

definition strptime_matches :: "datetime matcher" where
  "strptime_matches s =
     concat (map (\<lambda>(d, s1).
       concat (map (\<lambda>s2.
         concat (map (\<lambda>(b, s3).
           concat (map (\<lambda>s4.
             concat (map (\<lambda>s5.
               concat (map (\<lambda>(h, s6).
                 concat (map (\<lambda>s7.
                   map (\<lambda>(m, s8). (Datetime b d h m, s8)) (minute_matcher s7))
                 (lit_char CHR '':'' s6)))
               (hour_matcher s5)))
             (ws_plus s4)))
           (lit_char CHR '','' s3)))
         (month_matcher s2)))
       (ws_plus s1)))
     (day_matcher s))"

text \<open>The days of a month of 1900, which is no leap year.\<close>

definition days_in_month :: "nat \<Rightarrow> nat" where
  "days_in_month m = (if m = 2 then 28 else if m \<in> set [4, 6, 9, 11] then 30 else 31)"

definition strptime :: "string \<Rightarrow> py_error + datetime" where
  "strptime s =
     (case strptime_matches s of
        [] \<Rightarrow> Inl ValueError
      | (dt, rest) # others \<Rightarrow>
          if rest \<noteq> [] then Inl ValueError
          else if days_in_month (dt_month dt) < dt_day dt then Inl ValueError
          else Inr dt)"

text \<open>
  \<^verbatim>\<open>dt.replace(year=y).isoformat()\<close> for a year of at most four digits, as the clock of
  the library gives it.
\<close>

definition digit_char :: "nat \<Rightarrow> char" where
  "digit_char n = char_of (48 + n mod 10)"

definition fmt2 :: "nat \<Rightarrow> string" where
  "fmt2 n = [digit_char (n div 10), digit_char n]"

definition fmt4 :: "nat \<Rightarrow> string" where
  "fmt4 n = [digit_char (n div 1000), digit_char (n div 100), digit_char (n div 10), digit_char n]"

definition isoformat :: "nat \<Rightarrow> datetime \<Rightarrow> string" where
  "isoformat y dt =
     fmt4 y @ ''-'' @ fmt2 (dt_month dt) @ ''-'' @ fmt2 (dt_day dt) @ ''T''
     @ fmt2 (dt_hour dt) @ '':'' @ fmt2 (dt_minute dt) @ '':00''"


subsection \<open>\<^verbatim>\<open>float(text)\<close>\<close>

text \<open>
  The value read is kept as the decimal the text denotes (sign, digits, power of ten), or
  as an infinity or a NaN; the rounding to a binary floating-point number is outside the
  model. A text that is not a floating-point literal raises \<^verbatim>\<open>ValueError\<close>.
\<close>

datatype pyfloat = Decimal (negative: bool) (mantissa: nat) (exponent: int) | Infinite bool | NaN

text \<open>\<^verbatim>\<open>digit (["_"] digit)*\<close> behind its first digit: the digits read and the text left.\<close>

fun digitpart_rest :: "string \<Rightarrow> string \<times> string" where
  "digitpart_rest [] = ([], [])"
| "digitpart_rest [c] = (if is_digit c then ([c], []) else ([], [c]))"
| "digitpart_rest (c # c2 # cs) =
     (if is_digit c then (case digitpart_rest (c2 # cs) of (d, r) \<Rightarrow> (c # d, r))
      else if c = CHR ''_'' \<and> is_digit c2 then (case digitpart_rest cs of (d, r) \<Rightarrow> (c2 # d, r))
      else ([], c # c2 # cs))"

definition digitpart :: "string \<Rightarrow> (string \<times> string) option" where
  "digitpart s =
     (case s of
        [] \<Rightarrow> None
      | c # cs \<Rightarrow> if is_digit c then (case digitpart_rest cs of (d, r) \<Rightarrow> Some (c # d, r)) else None)"

definition nat_of_digits :: "string \<Rightarrow> nat" where
  "nat_of_digits ds = foldl (\<lambda>acc c. 10 * acc + digit_val c) 0 ds"

text \<open>\<^verbatim>\<open>[digitpart] "." digitpart | digitpart ["."]\<close>: integer digits, fraction digits, rest.\<close>

definition float_number :: "string \<Rightarrow> (string \<times> string \<times> string) option" where
  "float_number s =
     (case digitpart s of
        Some (ip, r) \<Rightarrow>
          (case r of
             [] \<Rightarrow> Some (ip, [], [])
           | c # r1 \<Rightarrow>
               if c = CHR ''.'' then
                 (case digitpart r1 of Some (fp, r2) \<Rightarrow> Some (ip, fp, r2) | None \<Rightarrow> Some (ip, [], r1))
               else Some (ip, [], r))
      | None \<Rightarrow>
          (case s of
             [] \<Rightarrow> None
           | c # r1 \<Rightarrow>
               if c = CHR ''.'' then
                 (case digitpart r1 of Some (fp, r2) \<Rightarrow> Some ([], fp, r2) | None \<Rightarrow> None)
               else None))"

text \<open>\<^verbatim>\<open>("e" | "E") ["+" | "-"] digitpart\<close>, to the end of the text; no exponent is 0.\<close>

definition float_exponent :: "string \<Rightarrow> int option" where
  "float_exponent s =
     (case s of
        [] \<Rightarrow> Some 0
      | c # r \<Rightarrow>
          if c = CHR ''e'' \<or> c = CHR ''E'' then
            (let neg = (take 1 r = ''-'');
                 r1 = (if take 1 r = ''-'' \<or> take 1 r = ''+'' then drop 1 r else r)
             in case digitpart r1 of
                  Some (ds, []) \<Rightarrow> Some (if neg then - int (nat_of_digits ds) else int (nat_of_digits ds))
                | _ \<Rightarrow> None)
          else None)"

definition py_float :: "string \<Rightarrow> py_error + pyfloat" where
  "py_float text_in =
     (let s = strip text_in;
          neg = (take 1 s = ''-'');
          body = (if take 1 s = ''-'' \<or> take 1 s = ''+'' then drop 1 s else s)
      in if lower body = ''inf'' \<or> lower body = ''infinity'' then Inr (Infinite neg)
         else if lower body = ''nan'' then Inr NaN
         else (case float_number body of
                 None \<Rightarrow> Inl ValueError
               | Some (ip, fp, r) \<Rightarrow>
                   (case float_exponent r of
                      None \<Rightarrow> Inl ValueError
                    | Some e \<Rightarrow> Inr (Decimal neg (nat_of_digits (ip @ fp)) (e - int (length fp))))))"


section \<open>CSS selection\<close>

text \<open>
  The selector library matches an element against a selector within the whole document:
  the ancestors and the preceding sibling an element is matched with may lie outside the
  tag \<^verbatim>\<open>select\<close> was called on. An element is therefore located: it comes with its
  previous element sibling and with its ancestors, the nearest first, each with its own
  previous element sibling.
\<close>

type_synonym ancestry = "(node \<times> node option) list"

type_synonym located = "node \<times> node option \<times> ancestry"

fun locate :: "ancestry \<Rightarrow> node option \<Rightarrow> node \<Rightarrow> located list"
  and locate_list :: "ancestry \<Rightarrow> node option \<Rightarrow> node list \<Rightarrow> located list" where
  "locate anc prev (NavigableString s) = []"
| "locate anc prev (Tag n c a ks) =
     (Tag n c a ks, prev, anc) # locate_list ((Tag n c a ks, prev) # anc) None ks"
| "locate_list anc prev [] = []"
| "locate_list anc prev (k # ks) =
     locate anc prev k
     @ locate_list anc (case k of NavigableString s \<Rightarrow> prev | Tag n c a cs \<Rightarrow> Some k) ks"

text \<open>A compound selector: an optional tag name and class names, all of which must be present.\<close>

fun compound :: "string option \<Rightarrow> string list \<Rightarrow> node \<Rightarrow> bool" where
  "compound tg cls (NavigableString s) = False"
| "compound tg cls (Tag n c a ks) =
     ((case tg of None \<Rightarrow> True | Some t \<Rightarrow> n = t)
      \<and> (case c of None \<Rightarrow> cls = [] | Some toks \<Rightarrow> list_all (\<lambda>x. x \<in> set toks) cls))"

text \<open>\<^verbatim>\<open>div.flex.flex-col.gap-1 > div.flex.gap-3 > div.font-normal\<close>\<close>

fun timestamp_selector :: "located \<Rightarrow> bool" where
  "timestamp_selector (e, prev, (p, pp) # (g, gp) # anc) =
     (compound (Some ''div'') [''font-normal''] e
      \<and> compound (Some ''div'') [''flex'', ''gap-3''] p
      \<and> compound (Some ''div'') [''flex'', ''flex-col'', ''gap-1''] g)"
| "timestamp_selector (e, prev, anc) = False"

text \<open>\<^verbatim>\<open>div.flex.flex-col.gap-1 + div.flex.flex-col.gap-1 > div.font-bold\<close>\<close>

fun odds_value_selector :: "located \<Rightarrow> bool" where
  "odds_value_selector (e, prev, (p, Some q) # anc) =
     (compound (Some ''div'') [''font-bold''] e
      \<and> compound (Some ''div'') [''flex'', ''flex-col'', ''gap-1''] p
      \<and> compound (Some ''div'') [''flex'', ''flex-col'', ''gap-1''] q)"
| "odds_value_selector (e, prev, anc) = False"

text \<open>\<^verbatim>\<open>div.mt-2.gap-1\<close>\<close>

fun opening_block_selector :: "located \<Rightarrow> bool" where
  "opening_block_selector (e, prev, anc) = compound (Some ''div'') [''mt-2'', ''gap-1''] e"

text \<open>\<^verbatim>\<open>div.flex.gap-1 div\<close> and \<^verbatim>\<open>div.flex.gap-1 .font-bold\<close>\<close>

fun opening_ts_selector :: "located \<Rightarrow> bool" where
  "opening_ts_selector (e, prev, anc) =
     (compound (Some ''div'') [] e
      \<and> list_ex (\<lambda>(a, ap). compound (Some ''div'') [''flex'', ''gap-1''] a) anc)"

fun opening_val_selector :: "located \<Rightarrow> bool" where
  "opening_val_selector (e, prev, anc) =
     (compound None [''font-bold''] e
      \<and> list_ex (\<lambda>(a, ap). compound (Some ''div'') [''flex'', ''gap-1''] a) anc)"

text \<open>\<^verbatim>\<open>soup.select(sel)\<close>, \<^verbatim>\<open>soup.select_one(sel)\<close> and \<^verbatim>\<open>tag.select_one(sel)\<close>.\<close>

definition select :: "(located \<Rightarrow> bool) \<Rightarrow> soup \<Rightarrow> located list" where
  "select sel sp = filter sel (locate_list [] None sp)"

definition select_one :: "(located \<Rightarrow> bool) \<Rightarrow> soup \<Rightarrow> located option" where
  "select_one sel sp = List.find sel (locate_list [] None sp)"

fun select_one_in :: "(located \<Rightarrow> bool) \<Rightarrow> located \<Rightarrow> located option" where
  "select_one_in sel (e, prev, anc) = List.find sel (locate_list ((e, prev) # anc) None (children e))"

fun element :: "located \<Rightarrow> node" where
  "element (e, prev, anc) = e"


section \<open>The odds history parser\<close>

datatype history_entry = HistoryEntry (timestamp: string) (odds: pyfloat)

text \<open>
  The values of the dictionary the parser returns: the list under \<^verbatim>\<open>"odds_history"\<close>, and
  an entry or \<^verbatim>\<open>None\<close> under \<^verbatim>\<open>"opening_odds"\<close>.
\<close>

datatype pyval = PyList "history_entry list" | PyEntry history_entry | PyNone

type_synonym history_result = "(string \<times> pyval) list"

text \<open>
  The loop of lines 162 to 171 over the pairs of \<^verbatim>\<open>zip\<close>, with the list built so far.
  A \<^verbatim>\<open>ValueError\<close> of \<^verbatim>\<open>strptime\<close> is caught and the pair passed over; \<^verbatim>\<open>float\<close> stands
  outside that \<^verbatim>\<open>try\<close>, so what it raises leaves the loop.
\<close>

fun history_rows :: "nat \<Rightarrow> history_entry list \<Rightarrow> (node \<times> node) list \<Rightarrow> py_error + history_entry list" where
  "history_rows y odds_history [] = Inr odds_history"
| "history_rows y odds_history ((ts, odd_div) # rest) =
     (case strptime (get_text_strip ts) of
        Inl e \<Rightarrow> if e = ValueError then history_rows y odds_history rest else Inl e
      | Inr dt \<Rightarrow>
         (case py_float (get_text_strip odd_div) of
            Inl e \<Rightarrow> Inl e
          | Inr v \<Rightarrow> history_rows y (odds_history @ [HistoryEntry (isoformat y dt) v]) rest))"

text \<open>
  Lines 174 to 187. \<^verbatim>\<open>select_one\<close> returns \<^verbatim>\<open>None\<close> when nothing matches, and calling a
  method on \<^verbatim>\<open>None\<close> raises \<^verbatim>\<open>AttributeError\<close>.
\<close>

definition parse_opening_odds :: "nat \<Rightarrow> soup \<Rightarrow> py_error + pyval" where
  "parse_opening_odds y sp =
     (case select_one opening_block_selector sp of
        None \<Rightarrow> Inl AttributeError
      | Some opening_odds_block \<Rightarrow>
          (case (select_one_in opening_ts_selector opening_odds_block,
                 select_one_in opening_val_selector opening_odds_block) of
             (Some opening_ts_div, Some opening_val_div) \<Rightarrow>
               (case strptime (get_text_strip (element opening_ts_div)) of
                  Inl e \<Rightarrow> if e = ValueError then Inr PyNone else Inl e
                | Inr dt \<Rightarrow>
                   (case py_float (get_text_strip (element opening_val_div)) of
                      Inl e \<Rightarrow> if e = ValueError then Inr PyNone else Inl e
                    | Inr v \<Rightarrow> Inr (PyEntry (HistoryEntry (isoformat y dt) v))))
           | _ \<Rightarrow> Inr PyNone))"

text \<open>The two element lists of lines 159 and 160.\<close>

definition timestamps :: "soup \<Rightarrow> node list" where
  "timestamps sp = map element (select timestamp_selector sp)"

definition odds_values :: "soup \<Rightarrow> node list" where
  "odds_values sp = map element (select odds_value_selector sp)"

text \<open>The body of the outer \<^verbatim>\<open>try\<close> (lines 158 to 189).\<close>

definition history_try_body :: "world \<Rightarrow> soup \<Rightarrow> py_error + history_result" where
  "history_try_body w sp =
     (case history_rows (utc_year w) [] (zip (timestamps sp) (odds_values sp)) of
        Inl e \<Rightarrow> Inl e
      | Inr odds_history \<Rightarrow>
         (case parse_opening_odds (utc_year w) sp of
            Inl e \<Rightarrow> Inl e
          | Inr opening_odds \<Rightarrow>
              Inr [(''odds_history'', PyList odds_history), (''opening_odds'', opening_odds)]))"

text \<open>
  The method: \<open>Inl\<close> would be an exception that reaches the caller; the
  \<^verbatim>\<open>except Exception\<close> of line 191 returns the empty dictionary.
\<close>

definition parse_odds_history_modal :: "world \<Rightarrow> soup \<Rightarrow> py_error + history_result" where
  "parse_odds_history_modal w sp =
     (case history_try_body w sp of
        Inl e \<Rightarrow> Inr []
      | Inr r \<Rightarrow> Inr r)"


section \<open>Notions of the specification\<close>

text \<open>
  A decimal number in the sense of the normalisation pattern \<^verbatim>\<open>\d+\.\d+\<close>: digits, a dot,
  digits.
\<close>

definition is_decimal :: "string \<Rightarrow> bool" where
  "is_decimal d =
     (let a = takeWhile is_digit d
      in a \<noteq> [] \<and>
         (case dropWhile is_digit d of
            [] \<Rightarrow> False
          | c # b \<Rightarrow> c = CHR ''.'' \<and> b \<noteq> [] \<and> list_all is_digit b))"



section \<open>Sample documents\<close>

text \<open>Markup of the shapes the parser is written for, as the trees the library builds.\<close>

definition mk_div :: "string list \<Rightarrow> node list \<Rightarrow> node" where
  "mk_div cls ks = Tag ''div'' (Some cls) [] ks"

definition odds_cell :: "string \<Rightarrow> node" where
  "odds_cell v = mk_div [''flex-center'', ''flex-col'', ''font-bold''] [NavigableString v]"

text \<open>A bookmaker row of a pre-match page: the logo with its title, then the odds cells.\<close>

definition bookmaker_row :: "string \<Rightarrow> string list \<Rightarrow> node" where
  "bookmaker_row title vs =
     mk_div [''border-black-borders'', ''flex'', ''h-9'']
       (Tag ''img'' (Some [''bookmaker-logo'']) [(''title'', title)] [] # map odds_cell vs)"

definition ts_row :: "string \<Rightarrow> node" where
  "ts_row t = mk_div [''flex'', ''gap-3''] [mk_div [''font-normal''] [NavigableString t]]"

definition val_row :: "string \<Rightarrow> node" where
  "val_row v = mk_div [''font-bold''] [NavigableString v]"

definition opening_div :: "string \<Rightarrow> string \<Rightarrow> node" where
  "opening_div t v =
     mk_div [''mt-2'', ''gap-1'']
       [mk_div [''flex'', ''gap-1''] [Tag ''div'' None [] [NavigableString t], val_row v]]"

text \<open>
  A history modal: the column of timestamps, the column of values next to it, and what
  follows them (the opening odds region, or nothing).
\<close>

definition modal :: "string list \<Rightarrow> string list \<Rightarrow> node list \<Rightarrow> soup" where
  "modal tss vs rest =
     [mk_div [''flex'', ''flex-col'', ''gap-1''] (map ts_row tss),
      mk_div [''flex'', ''flex-col'', ''gap-1''] (map val_row vs)] @ rest"


section \<open>Lemmas on the market odds extractor\<close>

lemma rx_match_here_lit_append:
  "rx_match_here (lit (a @ b)) s \<Longrightarrow> rx_match_here (lit a) s"
proof (induction a arbitrary: s)
  case Nil
  then show ?case by (simp add: lit_def)
next
  case (Cons x a)
  then show ?case by (cases s) (auto simp: lit_def)
qed

lemma rx_match_here_search: "rx_match_here r s \<Longrightarrow> rx_search r s"
  by (cases s) auto

lemma retry_implies_first_string:
  assumes "re_search block_pattern_retry s"
  shows "re_search block_pattern_first s"
proof -
  from assms have "rx_match_here (lit (''border-black-borders'' @ '' flex h-9'')) s"
    by (simp add: block_pattern_retry_def)
  then have "rx_match_here (lit ''border-black-borders'') s"
    by (rule rx_match_here_lit_append)
  then show ?thesis
    by (simp add: block_pattern_first_def rx_match_here_search)
qed

lemma retry_implies_first:
  "class_matches_re block_pattern_retry t \<Longrightarrow> class_matches_re block_pattern_first t"
  by (cases "(block_pattern_retry, t)" rule: class_matches_re.cases)
     (auto simp: list_ex_iff dest: retry_implies_first_string)

lemma filter_empty_mono:
  "filter P xs = [] \<Longrightarrow> (\<And>x. Q x \<Longrightarrow> P x) \<Longrightarrow> filter Q xs = []"
  by (induction xs) (auto split: if_splits)

lemma find_bookmaker_blocks_first:
  "find_bookmaker_blocks sp =
     find_all (\<lambda>t. is_tag ''div'' t \<and> class_matches_re block_pattern_first t) sp"
proof (cases "find_all (\<lambda>t. is_tag ''div'' t \<and> class_matches_re block_pattern_first t) sp = []")
  case True
  then have "find_all (\<lambda>t. is_tag ''div'' t \<and> class_matches_re block_pattern_retry t) sp = []"
    unfolding find_all_def by (rule filter_empty_mono) (auto dest: retry_implies_first)
  with True show ?thesis by (simp add: find_bookmaker_blocks_def)
next
  case False
  then show ?thesis by (simp add: find_bookmaker_blocks_def Let_def)
qed

lemma parse_blocks_append:
  "parse_blocks p l t (xs @ ys) = parse_blocks p l t xs @ parse_blocks p l t ys"
  by (induction xs) (auto split: sum.splits option.splits)

lemma parse_blocks_skip:
  "parse_block p l t b = Inr None \<Longrightarrow>
     parse_blocks p l t (bs1 @ b # bs2) = parse_blocks p l t (bs1 @ bs2)"
  by (simp add: parse_blocks_append)

lemma parse_blocks_member:
  "r \<in> set (parse_blocks p l t bs) \<Longrightarrow> \<exists>b \<in> set bs. parse_block p l t b = Inr (Some r)"
  by (induction bs) (auto split: sum.splits option.splits)

lemma parse_market_odds_blocks:
  "parse_market_odds w sp p l t = parse_blocks p l t (find_bookmaker_blocks sp)"
  by (simp add: parse_market_odds_def Let_def)

lemma extract_odds_keys:
  "extract_odds bs i ls d = Inr d' \<Longrightarrow> fst ` set d' = fst ` set d \<union> set ls"
proof (induction ls arbitrary: i d)
  case Nil
  then show ?case by simp
next
  case (Cons l ls)
  from Cons.prems
  have "extract_odds bs (Suc i) ls (AList.update l (get_text_strip (bs ! i)) d) = Inr d'"
    by (simp split: if_splits)
  from Cons.IH [OF this] show ?case
    by (auto simp: dom_update)
qed

lemma parse_block_few_fields:
  "length (find_odds_blocks b (length l)) < length l \<Longrightarrow> parse_block p l t b = Inr None"
  by (simp add: parse_block_def Let_def)

lemma parse_block_unnamed:
  "extract_bookmaker_name b = [] \<or> extract_bookmaker_name b = ''Unknown'' \<Longrightarrow>
     parse_block p l t b = Inr None"
  by (auto simp: parse_block_def Let_def)

lemma parse_block_record:
  assumes "parse_block p l t b = Inr (Some r)"
  shows "set l \<subseteq> fst ` set r"
    and "map_of r ''bookmaker_name'' = Some (extract_bookmaker_name b)"
    and "extract_bookmaker_name b \<noteq> []" and "extract_bookmaker_name b \<noteq> ''Unknown''"
proof -
  let ?nm = "extract_bookmaker_name b"
  from assms show nm: "?nm \<noteq> []" "?nm \<noteq> ''Unknown''"
    by (auto simp: parse_block_def Let_def split: if_splits)
  from assms nm obtain d where d: "extract_odds (find_odds_blocks b (length l)) 0 l [] = Inr d"
    and r: "r = AList.update ''period'' p (AList.update ''bookmaker_name'' ?nm
                  (map (\<lambda>(key, v). (key, normalize_odds_text v)) d))"
    by (auto simp: parse_block_def Let_def split: if_splits sum.splits)
  from extract_odds_keys [OF d] have "set l = fst ` set d" by simp
  also have "\<dots> = fst ` set (map (\<lambda>(key, v). (key, normalize_odds_text v)) d)"
    by (force simp: image_iff)
  finally show "set l \<subseteq> fst ` set r"
    unfolding r by (auto simp: dom_update)
  show "map_of r ''bookmaker_name'' = Some ?nm"
    unfolding r by (simp add: update_conv')
qed


section \<open>Lemmas on the normalisation\<close>

lemma not_digit_dot: "\<not> is_digit CHR ''.''"
  by (simp add: is_digit_def)

lemma is_decimal_iff:
  "is_decimal d \<longleftrightarrow>
     (\<exists>a b. a \<noteq> [] \<and> b \<noteq> [] \<and> list_all is_digit a \<and> list_all is_digit b \<and> d = a @ CHR ''.'' # b)"
proof
  assume h: "is_decimal d"
  obtain c b where r: "dropWhile is_digit d = c # b"
    using h by (auto simp: is_decimal_def Let_def split: list.splits)
  have "d = takeWhile is_digit d @ c # b"
    using r takeWhile_dropWhile_id [of is_digit d] by simp
  moreover have "list_all is_digit (takeWhile is_digit d)"
    by (simp add: list_all_iff) (meson set_takeWhileD)
  ultimately show "\<exists>a b. a \<noteq> [] \<and> b \<noteq> [] \<and> list_all is_digit a \<and> list_all is_digit b
      \<and> d = a @ CHR ''.'' # b"
    using h r by (auto simp: is_decimal_def Let_def)
next
  assume "\<exists>a b. a \<noteq> [] \<and> b \<noteq> [] \<and> list_all is_digit a \<and> list_all is_digit b
      \<and> d = a @ CHR ''.'' # b"
  then obtain a b where ab: "a \<noteq> []" "b \<noteq> []" "list_all is_digit a" "list_all is_digit b"
      "d = a @ CHR ''.'' # b"
    by blast
  have "takeWhile is_digit d = a" "dropWhile is_digit d = CHR ''.'' # b"
    using ab by (simp_all add: list_all_iff takeWhile_append2 dropWhile_append2 not_digit_dot)
  then show "is_decimal d" using ab by (simp add: is_decimal_def)
qed

lemma is_decimal_length:
  assumes "is_decimal d"
  shows "3 \<le> length d"
proof -
  from assms obtain a b where "a \<noteq> []" "b \<noteq> []" "d = a @ CHR ''.'' # b"
    by (auto simp: is_decimal_iff)
  then show ?thesis by (cases a; cases b) auto
qed

lemma sub_repeat_skip_all: "length s \<le> k \<Longrightarrow> sub_repeat k s = []"
proof (induction s arbitrary: k)
  case Nil
  then show ?case by simp
next
  case (Cons c cs)
  then show ?case by (cases k) auto
qed

lemma try_frac_found:
  "length s = 2 * m \<Longrightarrow> take m (drop m s) = take m s \<Longrightarrow> base < m \<Longrightarrow> m \<le> base + k
     \<Longrightarrow> try_frac s base k = Some m"
proof (induction k)
  case 0
  then show ?case by simp
next
  case (Suc k)
  show ?case
  proof (cases "base + Suc k = m")
    case True
    with Suc.prems show ?thesis by (simp add: Let_def)
  next
    case False
    with Suc.prems have gt: "m < base + Suc k" by simp
    have "length (take (base + Suc k) (drop (base + Suc k) s)) < length (take (base + Suc k) s)"
      using Suc.prems(1,3) gt by (auto simp: min_def)
    then have "take (base + Suc k) (drop (base + Suc k) s) \<noteq> take (base + Suc k) s"
      by (metis less_irrefl)
    moreover have "try_frac s base k = Some m"
      using Suc gt by simp
    ultimately show ?thesis by (simp add: Let_def)
  qed
qed

lemma match_repeat_double:
  assumes "is_decimal d"
  shows "match_repeat (d @ d) = Some (length d)"
proof -
  from assms obtain a b where ab: "a \<noteq> []" "b \<noteq> []" "list_all is_digit a" "list_all is_digit b"
      "d = a @ CHR ''.'' # b"
    by (auto simp: is_decimal_iff)
  let ?s = "d @ d"
  have tw: "takeWhile is_digit ?s = a"
    using ab by (simp add: list_all_iff takeWhile_append2 not_digit_dot)
  obtain k where k: "length a = Suc k" using ab(1) by (cases a) auto
  have dot: "take 1 (drop (Suc k) ?s) = ''.''"
    using ab k by simp
  have rest: "drop (Suc (Suc k)) ?s = b @ a @ CHR ''.'' # b"
    using ab k by simp
  have tw2: "takeWhile is_digit (b @ a @ CHR ''.'' # b) = b @ a"
    using ab by (simp add: list_all_iff takeWhile_append2 not_digit_dot)
  have "try_frac ?s (Suc (Suc k)) (length (b @ a)) = Some (length d)"
  proof (rule try_frac_found)
    show "length ?s = 2 * length d" by simp
    show "take (length d) (drop (length d) ?s) = take (length d) ?s" by simp
    show "Suc (Suc k) < length d" using ab k by simp
    show "length d \<le> Suc (Suc k) + length (b @ a)" using ab k by simp
  qed
  then show ?thesis
    using tw k dot rest tw2 by (simp add: match_repeat_def)
qed

lemma normalize_double:
  assumes "is_decimal d"
  shows "normalize_odds_text (d @ d) = d"
proof -
  from assms have ne: "d \<noteq> []" by (auto simp: is_decimal_iff)
  then obtain c cs where dd: "d @ d = c # cs" by (cases d) auto
  then have len: "length cs = 2 * length d - 1"
    by (metis length_append length_Cons diff_Suc_1 mult_2)
  have "sub_repeat 0 (c # cs) = take (length d) (c # cs) @ sub_repeat (2 * length d - 1) cs"
    using match_repeat_double [OF assms] dd by simp
  also have "take (length d) (c # cs) = d" using dd by (metis append_eq_conv_conj)
  also have "sub_repeat (2 * length d - 1) cs = []"
    using len by (simp add: sub_repeat_skip_all)
  finally show ?thesis by (simp add: normalize_odds_text_def dd)
qed

lemma try_frac_Some:
  "try_frac s base k = Some n \<Longrightarrow>
     \<exists>j. 1 \<le> j \<and> j \<le> k \<and> n = base + j \<and> take n (drop n s) = take n s"
proof (induction k)
  case 0
  then show ?case by simp
next
  case (Suc k)
  show ?case
  proof (cases "take (base + Suc k) (drop (base + Suc k) s) = take (base + Suc k) s")
    case True
    with Suc.prems have "n = base + Suc k" by (simp add: Let_def)
    with True show ?thesis by (intro exI [of _ "Suc k"]) simp
  next
    case False
    with Suc.prems have "try_frac s base k = Some n" by (simp add: Let_def)
    from Suc.IH [OF this] show ?thesis by (metis le_SucI)
  qed
qed

lemma try_int_Some:
  "try_int s k = Some n \<Longrightarrow>
     \<exists>i j. 1 \<le> i \<and> i \<le> k \<and> take 1 (drop i s) = ''.'' \<and> 1 \<le> j \<and>
           j \<le> length (takeWhile is_digit (drop (Suc i) s)) \<and> n = Suc i + j \<and>
           take n (drop n s) = take n s"
proof (induction k)
  case 0
  then show ?case by simp
next
  case (Suc k)
  let ?f = "try_frac s (Suc (Suc k)) (length (takeWhile is_digit (drop (Suc (Suc k)) s)))"
  show ?case
  proof (cases "take 1 (drop (Suc k) s) = ''.'' \<and> ?f \<noteq> None")
    case True
    then obtain m where m: "?f = Some m" by auto
    with True Suc.prems have "m = n" by simp
    from try_frac_Some [OF m] obtain j where j: "1 \<le> j"
        "j \<le> length (takeWhile is_digit (drop (Suc (Suc k)) s))" "m = Suc (Suc k) + j"
        "take m (drop m s) = take m s"
      by blast
    with \<open>m = n\<close> True show ?thesis
      by (intro exI [of _ "Suc k"] exI [of _ j]) simp
  next
    case False
    with Suc.prems have "try_int s k = Some n" by (auto split: if_splits option.splits)
    from Suc.IH [OF this] show ?thesis by (metis le_SucI)
  qed
qed

lemma match_repeat_Some:
  assumes "match_repeat s = Some n"
  shows "is_decimal (take n s) \<and> s = take n s @ take n s @ drop (2 * n) s"
proof -
  from assms obtain i j where ij: "1 \<le> i" "i \<le> length (takeWhile is_digit s)"
      "take 1 (drop i s) = ''.''" "1 \<le> j"
      "j \<le> length (takeWhile is_digit (drop (Suc i) s))" "n = Suc i + j"
      "take n (drop n s) = take n s"
    unfolding match_repeat_def by (blast dest: try_int_Some)
  have i_lt: "i < length s"
    using ij(3) by (cases "i < length s") auto
  have j_le: "j \<le> length (drop (Suc i) s)"
    using ij(5) length_takeWhile_le [of is_digit "drop (Suc i) s"] by (rule le_trans)
  then have n_le: "n \<le> length s" using ij(6) i_lt by simp
  have a: "take i s = take i (takeWhile is_digit s)"
    using ij(2) by (metis takeWhile_dropWhile_id take_append diff_is_0_eq take_0 append_Nil2)
  have a_dig: "list_all is_digit (take i s)"
    unfolding a list_all_iff by (meson in_set_takeD set_takeWhileD)
  have b: "take j (drop (Suc i) s) = take j (takeWhile is_digit (drop (Suc i) s))"
    using ij(5) by (metis takeWhile_dropWhile_id take_append diff_is_0_eq take_0 append_Nil2)
  have b_dig: "list_all is_digit (take j (drop (Suc i) s))"
    unfolding b list_all_iff by (meson in_set_takeD set_takeWhileD)
  have si: "s ! i = CHR ''.''"
    using ij(3) i_lt by (simp add: take_Suc_conv_app_nth)
  have "take n s = take i s @ s ! i # take j (drop (Suc i) s)"
  proof -
    have "take n s = take (Suc i) s @ take j (drop (Suc i) s)"
      unfolding ij(6) using take_add [of "Suc i" j s] by simp
    then show ?thesis using i_lt by (simp add: take_Suc_conv_app_nth)
  qed
  then have g: "take n s = take i s @ CHR ''.'' # take j (drop (Suc i) s)"
    using si by simp
  have "take i s \<noteq> []" using ij(1) i_lt by auto
  moreover have "take j (drop (Suc i) s) \<noteq> []"
    using ij(4) j_le by auto
  ultimately have dec: "is_decimal (take n s)"
    using a_dig b_dig g unfolding is_decimal_iff by blast
  have "s = take n s @ (take n (drop n s) @ drop n (drop n s))"
    unfolding append_take_drop_id by simp
  then have "s = take n s @ take n s @ drop (2 * n) s"
    unfolding ij(7) by (simp add: mult_2 add.commute)
  with dec show ?thesis by simp
qed

lemma sub_repeat_unchanged:
  "\<not> (\<exists>u d w. is_decimal d \<and> v = u @ d @ d @ w) \<Longrightarrow> sub_repeat 0 v = v"
proof (induction v)
  case Nil
  then show ?case by simp
next
  case (Cons c cs)
  have none: "match_repeat (c # cs) = None"
  proof (rule ccontr)
    assume "match_repeat (c # cs) \<noteq> None"
    then obtain n where "match_repeat (c # cs) = Some n" by auto
    from match_repeat_Some [OF this] Cons.prems show False
      by (metis append_Nil)
  qed
  have "\<not> (\<exists>u d w. is_decimal d \<and> cs = u @ d @ d @ w)"
  proof
    assume "\<exists>u d w. is_decimal d \<and> cs = u @ d @ d @ w"
    then obtain u d w where "is_decimal d" "cs = u @ d @ d @ w" by blast
    then have "is_decimal d \<and> c # cs = (c # u) @ d @ d @ w" by simp
    with Cons.prems show False by blast
  qed
  with Cons.IH none show ?case by simp
qed

lemma short_text_has_no_repeat:
  "length v < 6 \<Longrightarrow> \<not> (\<exists>u d w. is_decimal d \<and> v = u @ d @ d @ w)"
proof
  assume short: "length v < 6"
  assume "\<exists>u d w. is_decimal d \<and> v = u @ d @ d @ w"
  then obtain u d w where d: "is_decimal d" and v: "v = u @ d @ d @ w" by blast
  from is_decimal_length [OF d] v have "6 \<le> length v" by simp
  with short show False by simp
qed


section \<open>Lemmas on the odds history parser\<close>












section \<open>The claims\<close>

text \<open>
  C1 (the code departs from it). Claim: when the opening-odds region is missing, or its
  timestamp or value sub-element is missing or does not parse, the result has
  \<^verbatim>\<open>opening_odds\<close> null and \<^verbatim>\<open>odds_history\<close> still holds every parsed pair. With the
  region missing the parser calls \<^verbatim>\<open>select_one\<close> on \<^verbatim>\<open>None\<close>: on the document below, whose one
  history pair parses, the history loop has built one entry, and the method returns the
  empty dictionary, with neither key.
\<close>

theorem missing_opening_region_drops_history:
  "select_one opening_block_selector (modal [''15 Mar, 14:30''] [''2.50''] []) = None
   \<and> history_rows 2024 []
        (zip (timestamps (modal [''15 Mar, 14:30''] [''2.50''] []))
             (odds_values (modal [''15 Mar, 14:30''] [''2.50''] [])))
      = Inr [HistoryEntry ''2024-03-15T14:30:00'' (Decimal False 250 (- 2))]
   \<and> parse_odds_history_modal \<lparr>utc_year = 2024\<rparr> (modal [''15 Mar, 14:30''] [''2.50''] []) = Inr []"
  by code_simp

text \<open>
  C2 (the code departs from it). Claim: a history pair whose timestamp or whose value does
  not parse is the only pair skipped, and the later valid pairs appear in
  \<^verbatim>\<open>odds_history\<close>. This holds for a timestamp that does not parse (second document
  below). A value that does not parse raises outside the inner \<^verbatim>\<open>try\<close>: on the first
  document, whose first value is \<^verbatim>\<open>abc\<close> and whose second pair is valid, the method returns
  the empty dictionary.
\<close>

theorem unparseable_value_drops_history:
  "py_float ''abc'' = Inl ValueError
   \<and> parse_odds_history_modal \<lparr>utc_year = 2024\<rparr>
        (modal [''15 Mar, 14:30'', ''14 Mar, 10:00''] [''abc'', ''2.40'']
           [opening_div ''13 Mar, 09:00'' ''2.30'']) = Inr []
   \<and> parse_odds_history_modal \<lparr>utc_year = 2024\<rparr>
        (modal [''yesterday'', ''14 Mar, 10:00''] [''2.50'', ''2.40'']
           [opening_div ''13 Mar, 09:00'' ''2.30''])
      = Inr [(''odds_history'', PyList [HistoryEntry ''2024-03-14T10:00:00'' (Decimal False 240 (- 2))]),
             (''opening_odds'', PyEntry (HistoryEntry ''2024-03-13T09:00:00'' (Decimal False 230 (- 2))))]"
  by code_simp




text \<open>
  C4 (amended). Claim: block discovery searches with a first pattern and, when nothing
  matches, with a broader one, so that for some document the retry finds a block the first
  search did not. What the code does: it searches with \<^verbatim>\<open>border-black-borders\<close> and, when
  nothing matches, with \<^verbatim>\<open>^border-black-borders flex h-9\<close>; every element the retry
  pattern matches is matched by the first pattern too, so the blocks found are always
  those of the first search.
\<close>

theorem retry_pattern_is_narrower:
  "(class_matches_re block_pattern_retry t \<longrightarrow> class_matches_re block_pattern_first t)
   \<and> find_bookmaker_blocks sp
      = find_all (\<lambda>t. is_tag ''div'' t \<and> class_matches_re block_pattern_first t) sp"
  using retry_implies_first [of t] find_bookmaker_blocks_first [of sp] by blast

theorem retry_pattern_is_narrower_witness:
  "class_matches_re block_pattern_retry (bookmaker_row ''bet365'' [])
   \<and> class_matches_re block_pattern_first (bookmaker_row ''bet365'' [])"
proof -
  have h: "class_matches_re block_pattern_retry (bookmaker_row ''bet365'' [])" by code_simp
  with retry_pattern_is_narrower [of "bookmaker_row ''bet365'' []"] show ?thesis by blast
qed

text \<open>No document has a block that the retry finds and the first search does not.\<close>

theorem retry_finds_nothing_new:
  "\<not> (\<exists>sp t. t \<in> set (find_all (\<lambda>t. is_tag ''div'' t \<and> class_matches_re block_pattern_retry t) sp)
        \<and> t \<notin> set (find_all (\<lambda>t. is_tag ''div'' t \<and> class_matches_re block_pattern_first t) sp))"
  by (auto simp: find_all_def dest: retry_implies_first)

text \<open>
  C5. A value that is a decimal number (digits, dot, digits) followed at once by a copy of
  itself is normalised to one occurrence of the number; a value in which no decimal number
  is followed at once by a copy of itself is returned unchanged; \<^verbatim>\<open>2.502.50\<close> becomes
  \<^verbatim>\<open>2.50\<close>, and \<^verbatim>\<open>2.50\<close> and \<^verbatim>\<open>2.5\<close> stay as they are.
\<close>

theorem normalize_collapses_repeat:
  "(is_decimal d \<longrightarrow> normalize_odds_text (d @ d) = d)
   \<and> (\<not> (\<exists>u d w. is_decimal d \<and> v = u @ d @ d @ w) \<longrightarrow> normalize_odds_text v = v)
   \<and> normalize_odds_text ''2.502.50'' = ''2.50''
   \<and> normalize_odds_text ''2.50'' = ''2.50''
   \<and> normalize_odds_text ''2.5'' = ''2.5''"
proof (intro conjI impI)
  show "normalize_odds_text ''2.502.50'' = ''2.50''" by code_simp
  show "normalize_odds_text ''2.50'' = ''2.50''" by code_simp
  show "normalize_odds_text ''2.5'' = ''2.5''" by code_simp
next
  assume "is_decimal d"
  then show "normalize_odds_text (d @ d) = d" by (rule normalize_double)
next
  assume "\<not> (\<exists>u d w. is_decimal d \<and> v = u @ d @ d @ w)"
  then show "normalize_odds_text v = v"
    unfolding normalize_odds_text_def by (rule sub_repeat_unchanged)
qed

theorem normalize_collapses_repeat_witness:
  "is_decimal ''11.25'' \<and> normalize_odds_text (''11.25'' @ ''11.25'') = ''11.25''
   \<and> \<not> (\<exists>u d w. is_decimal d \<and> ''-1.5'' = u @ d @ d @ w)
   \<and> normalize_odds_text ''-1.5'' = ''-1.5''"
proof -
  have d: "is_decimal ''11.25''" by code_simp
  have n: "\<not> (\<exists>u d w. is_decimal d \<and> ''-1.5'' = u @ d @ d @ w)"
    by (rule short_text_has_no_repeat) simp
  from d n normalize_collapses_repeat [of "''11.25''" "''-1.5''"] show ?thesis by blast
qed

text \<open>
  C6. A block whose odds fields, after the first and the fallback search, are fewer than
  the requested labels contributes no record: the loop passes it over, and the output with
  the block is the output without it. Every record of the output binds every requested
  label.
\<close>

theorem incomplete_block_omitted:
  "(length (find_odds_blocks b (length odds_labels)) < length odds_labels \<longrightarrow>
      parse_block period odds_labels target b = Inr None
      \<and> parse_blocks period odds_labels target (bs1 @ b # bs2)
         = parse_blocks period odds_labels target (bs1 @ bs2))
   \<and> (\<forall>r \<in> set (parse_market_odds w sp period odds_labels target). set odds_labels \<subseteq> fst ` set r)"
  using parse_block_few_fields parse_blocks_skip parse_blocks_member parse_block_record(1)
  unfolding parse_market_odds_blocks by meson

theorem incomplete_block_omitted_witness:
  "length (find_odds_blocks (bookmaker_row ''bet365'' [''2.10'']) (length [''1'', ''2''])) < length [''1'', ''2'']
   \<and> parse_block ''FullTime'' [''1'', ''2''] None (bookmaker_row ''bet365'' [''2.10'']) = Inr None
   \<and> [(''1'', ''1.90''), (''2'', ''1.95''), (''bookmaker_name'', ''Pinnacle''), (''period'', ''FullTime'')]
        \<in> set (parse_market_odds \<lparr>utc_year = 2024\<rparr>
                 [bookmaker_row ''bet365'' [''2.10''], bookmaker_row ''Pinnacle'' [''1.90'', ''1.95'']]
                 ''FullTime'' [''1'', ''2''] None)
   \<and> set [''1'', ''2'']
        \<subseteq> fst ` set [(''1'', ''1.90''), (''2'', ''1.95''), (''bookmaker_name'', ''Pinnacle''), (''period'', ''FullTime'')]"
proof -
  have few: "length (find_odds_blocks (bookmaker_row ''bet365'' [''2.10'']) (length [''1'', ''2'']))
      < length [''1'', ''2'']"
    by code_simp
  have out: "parse_market_odds \<lparr>utc_year = 2024\<rparr>
        [bookmaker_row ''bet365'' [''2.10''], bookmaker_row ''Pinnacle'' [''1.90'', ''1.95'']]
        ''FullTime'' [''1'', ''2''] None
      = [[(''1'', ''1.90''), (''2'', ''1.95''), (''bookmaker_name'', ''Pinnacle''), (''period'', ''FullTime'')]]"
    by code_simp
  from incomplete_block_omitted [of "bookmaker_row ''bet365'' [''2.10'']" "[''1'', ''2'']"
      "''FullTime''" None "[]" "[]" "\<lparr>utc_year = 2024\<rparr>"
      "[bookmaker_row ''bet365'' [''2.10''], bookmaker_row ''Pinnacle'' [''1.90'', ''1.95'']]"]
    few out
  show ?thesis by simp
qed

text \<open>
  C7. Every record of the output has a \<^verbatim>\<open>bookmaker_name\<close> that is not empty and is not
  \<^verbatim>\<open>Unknown\<close>; a block whose resolved name is empty or \<^verbatim>\<open>Unknown\<close> is passed over,
  whatever its odds fields, and the output with the block is the output without it.
\<close>

theorem records_have_known_bookmaker:
  "(\<forall>r \<in> set (parse_market_odds w sp period odds_labels target).
       \<exists>nm. map_of r ''bookmaker_name'' = Some nm \<and> nm \<noteq> [] \<and> nm \<noteq> ''Unknown'')
   \<and> (extract_bookmaker_name b = [] \<or> extract_bookmaker_name b = ''Unknown'' \<longrightarrow>
        parse_block period odds_labels target b = Inr None
        \<and> parse_blocks period odds_labels target (bs1 @ b # bs2)
           = parse_blocks period odds_labels target (bs1 @ bs2))"
proof (intro conjI ballI impI)
  fix r assume "r \<in> set (parse_market_odds w sp period odds_labels target)"
  then obtain b' where "parse_block period odds_labels target b' = Inr (Some r)"
    unfolding parse_market_odds_blocks by (blast dest: parse_blocks_member)
  from parse_block_record(2-4) [OF this]
  show "\<exists>nm. map_of r ''bookmaker_name'' = Some nm \<and> nm \<noteq> [] \<and> nm \<noteq> ''Unknown''" by blast
next
  assume "extract_bookmaker_name b = [] \<or> extract_bookmaker_name b = ''Unknown''"
  then show n: "parse_block period odds_labels target b = Inr None" by (rule parse_block_unnamed)
  then show "parse_blocks period odds_labels target (bs1 @ b # bs2)
      = parse_blocks period odds_labels target (bs1 @ bs2)"
    by (rule parse_blocks_skip)
qed

theorem records_have_known_bookmaker_witness:
  "extract_bookmaker_name (mk_div [''border-black-borders''] (map odds_cell [''2.10'', ''1.80''])) = ''Unknown''
   \<and> parse_block ''FullTime'' [''1'', ''2''] None
        (mk_div [''border-black-borders''] (map odds_cell [''2.10'', ''1.80''])) = Inr None
   \<and> [(''1'', ''1.90''), (''2'', ''1.95''), (''bookmaker_name'', ''Pinnacle''), (''period'', ''FullTime'')]
        \<in> set (parse_market_odds \<lparr>utc_year = 2024\<rparr>
                 [mk_div [''border-black-borders''] (map odds_cell [''2.10'', ''1.80'']),
                  bookmaker_row ''Pinnacle'' [''1.90'', ''1.95'']]
                 ''FullTime'' [''1'', ''2''] None)
   \<and> (\<exists>nm. map_of [(''1'', ''1.90''), (''2'', ''1.95''), (''bookmaker_name'', ''Pinnacle''), (''period'', ''FullTime'')]
               ''bookmaker_name'' = Some nm \<and> nm \<noteq> [] \<and> nm \<noteq> ''Unknown'')"
proof -
  have unk: "extract_bookmaker_name (mk_div [''border-black-borders''] (map odds_cell [''2.10'', ''1.80'']))
      = ''Unknown''"
    by code_simp
  have out: "parse_market_odds \<lparr>utc_year = 2024\<rparr>
        [mk_div [''border-black-borders''] (map odds_cell [''2.10'', ''1.80'']),
         bookmaker_row ''Pinnacle'' [''1.90'', ''1.95'']]
        ''FullTime'' [''1'', ''2''] None
      = [[(''1'', ''1.90''), (''2'', ''1.95''), (''bookmaker_name'', ''Pinnacle''), (''period'', ''FullTime'')]]"
    by code_simp
  from records_have_known_bookmaker [of "\<lparr>utc_year = 2024\<rparr>"
      "[mk_div [''border-black-borders''] (map odds_cell [''2.10'', ''1.80'']),
        bookmaker_row ''Pinnacle'' [''1.90'', ''1.95'']]"
      "''FullTime''" "[''1'', ''2'']" None
      "mk_div [''border-black-borders''] (map odds_cell [''2.10'', ''1.80''])" "[]" "[]"]
    unk out
  show ?thesis by simp
qed







end
